theory Spec2Isabelle
  imports
    Complex_Main
    "HOL-Library.Multiset"
    "HOL-Library.List_Lexorder"
    "HOL-Library.Char_ord"
begin

section \<open>JavaScript numbers\<close>

text \<open>
  The scoring code of \<^verbatim>\<open>src/util.ts\<close> computes with JavaScript numbers. Three features
  of that arithmetic decide what the code does and are modelled: \<^verbatim>\<open>NaN\<close> (what
  \<^verbatim>\<open>parseInt\<close> returns on a string without digits, and what arithmetic with
  \<^verbatim>\<open>undefined\<close> gives), the two infinities (what a division by zero gives), and the
  comparisons, which are all false on \<^verbatim>\<open>NaN\<close>.

  Finite values are reals. In this first part finite arithmetic is exact; a statement made
  with it speaks about the code wherever the sums of the code are exactly representable
  (integer weights of moderate size, for instance). The rounding and the overflow of
  IEEE-754 doubles come in a later part (\<open>round_double\<close>), for the statement that
  depends on them. The sign of zero is not modelled.
\<close>

datatype number = Fin real | PosInf | NegInf | NaN

fun num_neg :: "number \<Rightarrow> number" where
  "num_neg (Fin a) = Fin (- a)"
| "num_neg PosInf = NegInf"
| "num_neg NegInf = PosInf"
| "num_neg NaN = NaN"

fun num_add :: "number \<Rightarrow> number \<Rightarrow> number" where
  "num_add (Fin a) (Fin b) = Fin (a + b)"
| "num_add (Fin a) PosInf = PosInf"
| "num_add (Fin a) NegInf = NegInf"
| "num_add (Fin a) NaN = NaN"
| "num_add PosInf (Fin b) = PosInf"
| "num_add PosInf PosInf = PosInf"
| "num_add PosInf NegInf = NaN"
| "num_add PosInf NaN = NaN"
| "num_add NegInf (Fin b) = NegInf"
| "num_add NegInf PosInf = NaN"
| "num_add NegInf NegInf = NegInf"
| "num_add NegInf NaN = NaN"
| "num_add NaN y = NaN"

definition num_sub :: "number \<Rightarrow> number \<Rightarrow> number" where
  "num_sub x y = num_add x (num_neg y)"

fun num_mul :: "number \<Rightarrow> number \<Rightarrow> number" where
  "num_mul (Fin a) (Fin b) = Fin (a * b)"
| "num_mul (Fin a) PosInf = (if a = 0 then NaN else if 0 < a then PosInf else NegInf)"
| "num_mul (Fin a) NegInf = (if a = 0 then NaN else if 0 < a then NegInf else PosInf)"
| "num_mul (Fin a) NaN = NaN"
| "num_mul PosInf (Fin b) = (if b = 0 then NaN else if 0 < b then PosInf else NegInf)"
| "num_mul PosInf PosInf = PosInf"
| "num_mul PosInf NegInf = NegInf"
| "num_mul PosInf NaN = NaN"
| "num_mul NegInf (Fin b) = (if b = 0 then NaN else if 0 < b then NegInf else PosInf)"
| "num_mul NegInf PosInf = NegInf"
| "num_mul NegInf NegInf = PosInf"
| "num_mul NegInf NaN = NaN"
| "num_mul NaN y = NaN"

text \<open>
  Division. A zero divisor is the positive zero (the only divisor of the code is the length
  of an array): a positive dividend gives \<^verbatim>\<open>Infinity\<close>, a negative one
  \<^verbatim>\<open>-Infinity\<close>, and \<^verbatim>\<open>0 / 0\<close> is \<^verbatim>\<open>NaN\<close>. Nothing is raised.
\<close>

fun num_div :: "number \<Rightarrow> number \<Rightarrow> number" where
  "num_div (Fin a) (Fin b) =
     (if b = 0 then (if a = 0 then NaN else if 0 < a then PosInf else NegInf)
      else Fin (a / b))"
| "num_div (Fin a) PosInf = Fin 0"
| "num_div (Fin a) NegInf = Fin 0"
| "num_div (Fin a) NaN = NaN"
| "num_div PosInf (Fin b) = (if 0 \<le> b then PosInf else NegInf)"
| "num_div PosInf PosInf = NaN"
| "num_div PosInf NegInf = NaN"
| "num_div PosInf NaN = NaN"
| "num_div NegInf (Fin b) = (if 0 \<le> b then NegInf else PosInf)"
| "num_div NegInf PosInf = NaN"
| "num_div NegInf NegInf = NaN"
| "num_div NegInf NaN = NaN"
| "num_div NaN y = NaN"

text \<open>The comparison \<^verbatim>\<open>x < y\<close> of two numbers; false when either is \<^verbatim>\<open>NaN\<close>.\<close>

fun num_lt :: "number \<Rightarrow> number \<Rightarrow> bool" where
  "num_lt (Fin a) (Fin b) = (a < b)"
| "num_lt (Fin a) PosInf = True"
| "num_lt (Fin a) NegInf = False"
| "num_lt (Fin a) NaN = False"
| "num_lt PosInf y = False"
| "num_lt NegInf (Fin b) = True"
| "num_lt NegInf PosInf = True"
| "num_lt NegInf NegInf = False"
| "num_lt NegInf NaN = False"
| "num_lt NaN y = False"

text \<open>
  \<^verbatim>\<open>x >= y\<close> is "not \<^verbatim>\<open>x < y\<close>" unless the comparison is undefined (an operand is
  \<^verbatim>\<open>NaN\<close>), in which case it is false as well.
\<close>

definition num_ge :: "number \<Rightarrow> number \<Rightarrow> bool" where
  "num_ge x y = (x \<noteq> NaN \<and> y \<noteq> NaN \<and> \<not> num_lt x y)"

definition num_le :: "number \<Rightarrow> number \<Rightarrow> bool" where
  "num_le x y = num_ge y x"

text \<open>\<^verbatim>\<open>x || y\<close> on numbers: \<^verbatim>\<open>x\<close> unless it is falsy, that is zero or \<^verbatim>\<open>NaN\<close>.\<close>

definition num_or :: "number \<Rightarrow> number \<Rightarrow> number" where
  "num_or x y = (if x = NaN \<or> x = Fin 0 then y else x)"

section \<open>JavaScript strings\<close>

text \<open>
  A string is a list of code units; the \<^typ>\<open>char\<close> of HOL has 256 values, which are read
  as the code units U+0000 to U+00FF (ASCII and Latin-1).
\<close>

definition codeUnit :: "char \<Rightarrow> nat" where
  "codeUnit c = of_char c"

text \<open>The characters that \<^verbatim>\<open>parseInt\<close> skips at the start of its input.\<close>

definition isStrWhiteSpaceChar :: "char \<Rightarrow> bool" where
  "isStrWhiteSpaceChar c =
     (let n = codeUnit c in (9 \<le> n \<and> n \<le> 13) \<or> n = 32 \<or> n = 160)"

text \<open>
  The value of a character as a digit: \<^verbatim>\<open>0\<close> to \<^verbatim>\<open>9\<close>, then the letters of either
  case for ten to thirty-five; 36, which no radix admits, for any other character.
\<close>

definition digitValue :: "char \<Rightarrow> nat" where
  "digitValue c =
     (let n = codeUnit c in
      if 48 \<le> n \<and> n \<le> 57 then n - 48
      else if 97 \<le> n \<and> n \<le> 122 then n - 87
      else if 65 \<le> n \<and> n \<le> 90 then n - 55
      else 36)"

definition startsWith :: "string \<Rightarrow> string \<Rightarrow> bool" where
  "startsWith s p = (take (length p) s = p)"

text \<open>
  \<^verbatim>\<open>parseInt(inputString, radix)\<close>, with radix 0 for a call without one: leading white
  space is skipped, a sign is read, a \<^verbatim>\<open>0x\<close> prefix selects radix 16 when the radix is
  absent or 16, and the longest run of digits of the radix is the value. No digit at all
  gives \<^verbatim>\<open>NaN\<close>.
\<close>

definition parseInt :: "string \<Rightarrow> nat \<Rightarrow> number" where
  "parseInt inputString radix =
     (let S0 = dropWhile isStrWhiteSpaceChar inputString;
          negative = startsWith S0 ''-'' ;
          S1 = (if startsWith S0 ''+'' \<or> startsWith S0 ''-'' then drop 1 S0 else S0);
          stripPrefix = (radix = 0 \<or> radix = 16);
          hex = (stripPrefix \<and> (startsWith S1 ''0x'' \<or> startsWith S1 ''0X''));
          S2 = (if hex then drop 2 S1 else S1);
          R = (if hex then 16 else if radix = 0 then 10 else radix);
          Z = takeWhile (\<lambda>c. digitValue c < R) S2;
          mathInt = foldl (\<lambda>a c. a * int R + int (digitValue c)) 0 Z
      in if radix \<noteq> 0 \<and> (radix < 2 \<or> 36 < radix) then NaN
         else if Z = [] then NaN
         else if negative then Fin (- of_int mathInt) else Fin (of_int mathInt))"

text \<open>
  \<^verbatim>\<open>s.split(sep)\<close> for a string separator: the pieces between the occurrences of
  \<^verbatim>\<open>sep\<close>, found from the left and not overlapping; always at least one piece. With the
  empty separator the pieces are the single code units.
\<close>

function splitFrom :: "string \<Rightarrow> string \<Rightarrow> string \<Rightarrow> string list" where
  "splitFrom sep piece [] = [rev piece]"
| "splitFrom sep piece (c # cs) =
     (if sep \<noteq> [] \<and> startsWith (c # cs) sep
      then rev piece # splitFrom sep [] (drop (length sep - 1) cs)
      else splitFrom sep (c # piece) cs)"
  by pat_completeness auto
termination
  by (relation "measure (\<lambda>(sep, piece, s). length s)") auto

definition str_split :: "string \<Rightarrow> string \<Rightarrow> string list" where
  "str_split s sep = (if sep = [] then map (\<lambda>c. [c]) s else splitFrom sep [] s)"

text \<open>\<^verbatim>\<open>s.includes(t)\<close> on strings: \<^verbatim>\<open>t\<close> occurs in \<^verbatim>\<open>s\<close> at some position.\<close>

fun str_includes :: "string \<Rightarrow> string \<Rightarrow> bool" where
  "str_includes [] t = (t = [])"
| "str_includes (c # cs) t = (startsWith (c # cs) t \<or> str_includes cs t)"

text \<open>
  \<^verbatim>\<open>s.toLowerCase()\<close> on the code units below 256: the ASCII capitals and the Latin-1
  capitals (U+00C0 to U+00DE without the multiplication sign U+00D7) move up by 32.
\<close>

definition toLowerChar :: "char \<Rightarrow> char" where
  "toLowerChar c =
     (let n = codeUnit c in
      if (65 \<le> n \<and> n \<le> 90) \<or> (192 \<le> n \<and> n \<le> 222 \<and> n \<noteq> 215)
      then char_of (n + 32) else c)"

definition toLowerCase :: "string \<Rightarrow> string" where
  "toLowerCase s = map toLowerChar s"

text \<open>
  \<^verbatim>\<open>s.replace(pat, rep)\<close> with a string pattern: the first occurrence of
  \<^verbatim>\<open>pat\<close> is replaced (the code's replacement is the empty string, so the
  \<^verbatim>\<open>$\<close> patterns of a replacement play no part).
\<close>

fun str_replace :: "string \<Rightarrow> string \<Rightarrow> string \<Rightarrow> string" where
  "str_replace [] pat rep = (if pat = [] then rep else [])"
| "str_replace (c # cs) pat rep =
     (if startsWith (c # cs) pat then rep @ drop (length pat) (c # cs)
      else c # str_replace cs pat rep)"

text \<open>
  The comparison \<^verbatim>\<open>a < b\<close> of two strings: at the first position where they differ the
  code units decide; when one is a prefix of the other, the shorter is the smaller.
\<close>

fun str_lt :: "string \<Rightarrow> string \<Rightarrow> bool" where
  "str_lt [] [] = False"
| "str_lt [] (y # ys) = True"
| "str_lt (x # xs) [] = False"
| "str_lt (x # xs) (y # ys) = (if x = y then str_lt xs ys else codeUnit x < codeUnit y)"

text \<open>\<^verbatim>\<open>a <= b\<close> on strings is "not \<^verbatim>\<open>b < a\<close>".\<close>

definition str_le :: "string \<Rightarrow> string \<Rightarrow> bool" where
  "str_le a b = (\<not> str_lt b a)"

section \<open>The data of \<^verbatim>\<open>src/types.ts\<close>\<close>

record 'a IPreference =
  val :: 'a
  weight :: number

record Preferences =
  afterYear :: "number IPreference option"
  beforeYear :: "number IPreference option"
  maximumAgeRating :: "string IPreference option"
  shorterThan :: "string IPreference option"
  favoriteGenre :: "string IPreference option"
  leastFavoriteDirector :: "string IPreference option"
  favoriteActors :: "string list IPreference option"
  favoritePlotElements :: "string list IPreference option"
  minimumRottenTomatoesScore :: "number IPreference option"

record IPerson =
  name :: string
  preferences :: Preferences

record IRating =
  source :: string
  ratingValue :: string

record IMovie =
  imdbID :: string
  title :: string
  year :: string
  genre :: string
  director :: string
  actors :: string
  plot :: string
  rated :: string
  runtime :: string
  ratings :: "IRating list"

record ScoredMovie =
  score :: number
  id' :: string

section \<open>The functions of \<^verbatim>\<open>src/util.ts\<close>\<close>

text \<open>
  \<^verbatim>\<open>runtimeToMinutes\<close>: the pieces of the string around \<^verbatim>\<open>h\<close> are parsed, a piece
  that parses to \<^verbatim>\<open>NaN\<close> or to zero counts as 0, and the first two pieces are taken as
  hours and minutes. When there is one piece only, \<^verbatim>\<open>minutes\<close> is \<^verbatim>\<open>undefined\<close>,
  which the addition reads as \<^verbatim>\<open>NaN\<close>.
\<close>

definition runtimeToMinutes :: "string \<Rightarrow> number" where
  "runtimeToMinutes rt =
     (case map (\<lambda>part. num_or (parseInt part 10) (Fin 0)) (str_split rt ''h'') of
        [] \<Rightarrow> NaN
      | [hours] \<Rightarrow> num_add (num_mul hours (Fin 60)) NaN
      | hours # minutes # rest \<Rightarrow> num_add (num_mul hours (Fin 60)) minutes)"

text \<open>
  \<^verbatim>\<open>getRottenTomatoesScore\<close>: the first rating whose source is the string
  \<^verbatim>\<open>Rotten Tomatoes\<close>, its first percent sign removed, parsed in radix 10; 0 when there
  is no such rating.
\<close>

definition getRottenTomatoesScore :: "IMovie \<Rightarrow> number" where
  "getRottenTomatoesScore movie =
     (case find (\<lambda>r. source r = ''Rotten Tomatoes'') (ratings movie) of
        Some rating \<Rightarrow> parseInt (str_replace (ratingValue rating) ''%'' '''') 10
      | None \<Rightarrow> Fin 0)"

text \<open>A person without any preference: the empty \<^verbatim>\<open>preferences\<close> object.\<close>

definition noPreferences :: Preferences where
  "noPreferences =
     \<lparr>afterYear = None, beforeYear = None, maximumAgeRating = None, shorterThan = None,
      favoriteGenre = None, leastFavoriteDirector = None, favoriteActors = None,
      favoritePlotElements = None, minimumRottenTomatoesScore = None\<rparr>"

text \<open>
  \<^verbatim>\<open>calculateScore\<close>. The body of its loop is a sequence of nine \<^verbatim>\<open>if\<close>
  statements, one for each kind of preference; each is a function of the movie, of the
  person's preference of that kind and of the score so far, to the score after it. A
  preference that the person does not have is \<^verbatim>\<open>undefined\<close>, which is falsy, so
  its statement does nothing.
\<close>

definition checkAfterYear ::
    "IMovie \<Rightarrow> number IPreference option \<Rightarrow> number \<Rightarrow> number" where
  "checkAfterYear movie pref sc =
     (case pref of
        None \<Rightarrow> sc
      | Some p \<Rightarrow>
          if num_ge (parseInt (year movie) 0) (val p) then num_add sc (weight p) else sc)"

definition checkBeforeYear ::
    "IMovie \<Rightarrow> number IPreference option \<Rightarrow> number \<Rightarrow> number" where
  "checkBeforeYear movie pref sc =
     (case pref of
        None \<Rightarrow> sc
      | Some p \<Rightarrow>
          if num_lt (parseInt (year movie) 0) (val p) then num_add sc (weight p) else sc)"

definition checkMaximumAgeRating ::
    "IMovie \<Rightarrow> string IPreference option \<Rightarrow> number \<Rightarrow> number" where
  "checkMaximumAgeRating movie pref sc =
     (case pref of
        None \<Rightarrow> sc
      | Some p \<Rightarrow> if str_le (rated movie) (val p) then num_add sc (weight p) else sc)"

definition checkShorterThan ::
    "IMovie \<Rightarrow> string IPreference option \<Rightarrow> number \<Rightarrow> number" where
  "checkShorterThan movie pref sc =
     (case pref of
        None \<Rightarrow> sc
      | Some p \<Rightarrow>
          if num_lt (runtimeToMinutes (runtime movie)) (runtimeToMinutes (val p))
          then num_add sc (weight p) else sc)"

definition checkFavoriteGenre ::
    "IMovie \<Rightarrow> string IPreference option \<Rightarrow> number \<Rightarrow> number" where
  "checkFavoriteGenre movie pref sc =
     (case pref of
        None \<Rightarrow> sc
      | Some p \<Rightarrow>
          if str_includes (toLowerCase (genre movie)) (val p)
          then num_add sc (weight p) else sc)"

definition checkLeastFavoriteDirector ::
    "IMovie \<Rightarrow> string IPreference option \<Rightarrow> number \<Rightarrow> number" where
  "checkLeastFavoriteDirector movie pref sc =
     (case pref of
        None \<Rightarrow> sc
      | Some p \<Rightarrow> if director movie = val p then num_sub sc (weight p) else sc)"

text \<open>The number of the movie's actors that are among the favourite ones.\<close>

definition matchingActors :: "IMovie \<Rightarrow> string list \<Rightarrow> string list" where
  "matchingActors movie favorites =
     filter (\<lambda>actor. actor \<in> set favorites) (str_split (actors movie) '', '')"

definition checkFavoriteActors ::
    "IMovie \<Rightarrow> string list IPreference option \<Rightarrow> number \<Rightarrow> number" where
  "checkFavoriteActors movie pref sc =
     (case pref of
        None \<Rightarrow> sc
      | Some p \<Rightarrow>
          num_add sc
            (num_div (weight p) (Fin (real (length (matchingActors movie (val p)))))))"

definition matchingElements :: "IMovie \<Rightarrow> string list \<Rightarrow> string list" where
  "matchingElements movie plotElements =
     filter (\<lambda>element. str_includes (toLowerCase (plot movie)) (toLowerCase element))
       plotElements"

definition checkFavoritePlotElements ::
    "IMovie \<Rightarrow> string list IPreference option \<Rightarrow> number \<Rightarrow> number" where
  "checkFavoritePlotElements movie pref sc =
     (case pref of
        None \<Rightarrow> sc
      | Some p \<Rightarrow>
          num_add sc
            (num_mul (Fin (real (length (matchingElements movie (val p))))) (weight p)))"

text \<open>
  The last statement also asks that the extracted score is not \<^verbatim>\<open>null\<close>;
  \<^verbatim>\<open>getRottenTomatoesScore\<close> returns a number, never \<^verbatim>\<open>null\<close>, so that test is
  always passed.
\<close>

definition checkMinimumRottenTomatoesScore ::
    "IMovie \<Rightarrow> number IPreference option \<Rightarrow> number \<Rightarrow> number" where
  "checkMinimumRottenTomatoesScore movie pref sc =
     (let rtScore = getRottenTomatoesScore movie in
      case pref of
        None \<Rightarrow> sc
      | Some p \<Rightarrow> if num_ge rtScore (val p) then num_add sc (weight p) else sc)"

text \<open>One turn of the loop: the nine statements in the order of the source.\<close>

definition scorePerson :: "IMovie \<Rightarrow> number \<Rightarrow> IPerson \<Rightarrow> number" where
  "scorePerson movie sc person =
     (let prefs = preferences person;
          sc = checkAfterYear movie (afterYear prefs) sc;
          sc = checkBeforeYear movie (beforeYear prefs) sc;
          sc = checkMaximumAgeRating movie (maximumAgeRating prefs) sc;
          sc = checkShorterThan movie (shorterThan prefs) sc;
          sc = checkFavoriteGenre movie (favoriteGenre prefs) sc;
          sc = checkLeastFavoriteDirector movie (leastFavoriteDirector prefs) sc;
          sc = checkFavoriteActors movie (favoriteActors prefs) sc;
          sc = checkFavoritePlotElements movie (favoritePlotElements prefs) sc;
          sc = checkMinimumRottenTomatoesScore movie (minimumRottenTomatoesScore prefs) sc
      in sc)"

definition calculateScore :: "IMovie \<Rightarrow> IPerson list \<Rightarrow> number" where
  "calculateScore movie people = foldl (scorePerson movie) (Fin 0) people"

text \<open>
  \<^verbatim>\<open>Array.prototype.sort\<close> with a comparison function. The language leaves the
  algorithm to the engine and asks for a stable result; for a comparison function that is
  a consistent order there is one such result, computed here by insertion from the right.
  An element moves behind another one only when the comparison is positive; a comparison
  that is \<^verbatim>\<open>NaN\<close> counts as zero, as the language says.
\<close>

fun sort_insert :: "('a \<Rightarrow> 'a \<Rightarrow> number) \<Rightarrow> 'a \<Rightarrow> 'a list \<Rightarrow> 'a list" where
  "sort_insert cmp x [] = [x]"
| "sort_insert cmp x (y # ys) =
     (if num_lt (Fin 0) (cmp x y) then y # sort_insert cmp x ys else x # y # ys)"

definition array_sort :: "('a \<Rightarrow> 'a \<Rightarrow> number) \<Rightarrow> 'a list \<Rightarrow> 'a list" where
  "array_sort cmp xs = foldr (sort_insert cmp) xs []"

definition rankMovies :: "IMovie list \<Rightarrow> IPerson list \<Rightarrow> ScoredMovie list" where
  "rankMovies movies people =
     array_sort (\<lambda>a b. num_sub (score b) (score a))
       (map (\<lambda>movie. \<lparr>score = calculateScore movie people, id' = imdbID movie\<rparr>) movies)"

section \<open>Notions used in the statements\<close>

text \<open>A list of scored movies is in descending order of score.\<close>

definition descending :: "ScoredMovie list \<Rightarrow> bool" where
  "descending xs = sorted_wrt (\<lambda>a b. num_ge (score a) (score b)) xs"

text \<open>
  A string has a leading numeral when, after white space and an optional sign, it goes on
  with a decimal digit.
\<close>

definition leadingNumeral :: "string \<Rightarrow> bool" where
  "leadingNumeral s =
     (let t = dropWhile isStrWhiteSpaceChar s;
          u = (if startsWith t ''+'' \<or> startsWith t ''-'' then drop 1 t else t)
      in case u of [] \<Rightarrow> False | c # cs \<Rightarrow> 48 \<le> codeUnit c \<and> codeUnit c \<le> 57)"

text \<open>A person with the given preferences; the name plays no part in the score.\<close>

definition voter :: "Preferences \<Rightarrow> IPerson" where
  "voter prefs = \<lparr>name = ''voter'', preferences = prefs\<rparr>"

text \<open>The movie of the specification's example.\<close>

definition shawshank :: IMovie where
  "shawshank =
     \<lparr>imdbID = ''tt0111161'', title = ''The Shawshank Redemption'', year = ''1994'',
      genre = ''Drama'', director = ''Frank Darabont'',
      actors = ''Tim Robbins, Morgan Freeman'',
      plot = ''a banker is sentenced to life in prison'', rated = ''R'',
      runtime = ''2h 22min'',
      ratings = [\<lparr>source = ''Rotten Tomatoes'', ratingValue = ''91%''\<rparr>]\<rparr>"

text \<open>
  A person who names one favourite actor, who is not in the cast of the example movie,
  with the given weight.
\<close>

definition pacinoFan :: "number \<Rightarrow> IPerson" where
  "pacinoFan w =
     voter (noPreferences\<lparr>favoriteActors := Some \<lparr>val = [''Al Pacino''], weight = w\<rparr>\<rparr>)"

text \<open>
  Three movies and a person for whom they score 1, \<^verbatim>\<open>NaN\<close> and 2: the person gives
  weight 1 to two plot elements and weight 0 to an actor who plays in the first and the
  third movie only.
\<close>

definition movieOne :: IMovie where
  "movieOne = shawshank\<lparr>imdbID := ''tt0000001'', actors := ''Morgan Freeman'',
     plot := ''A prison.''\<rparr>"

definition movieNaN :: IMovie where
  "movieNaN = shawshank\<lparr>imdbID := ''tt0000002'', actors := ''Al Pacino'',
     plot := ''A heist.''\<rparr>"

definition movieTwo :: IMovie where
  "movieTwo = shawshank\<lparr>imdbID := ''tt0000003'', actors := ''Morgan Freeman'',
     plot := ''A banker in prison.''\<rparr>"

definition freemanFan :: IPerson where
  "freemanFan =
     voter (noPreferences
       \<lparr>favoriteActors := Some \<lparr>val = [''Morgan Freeman''], weight = Fin 0\<rparr>,
        favoritePlotElements := Some \<lparr>val = [''prison'', ''banker''], weight = Fin 1\<rparr>\<rparr>)"

section \<open>The arithmetic of doubles\<close>

text \<open>
  The numbers of the code are IEEE-754 doubles: every arithmetic operation gives the
  double that is nearest to the exact result, and of two nearest ones the one with the even
  significand. \<open>pow2 e\<close> is the power of two with the exponent \<open>e\<close>.
\<close>

definition pow2 :: "int \<Rightarrow> real" where
  "pow2 e = (if 0 \<le> e then 2 ^ nat e else 1 / 2 ^ nat (- e))"

text \<open>
  The binary exponent of a positive real: the greatest \<open>e\<close> with \<open>pow2 e \<le> x\<close>, found
  upwards from 0 for \<open>x \<ge> 1\<close> and downwards from 0 for \<open>x < 1\<close>, and kept between
  -1022, the exponent of the subnormal doubles, and 1024, where the doubles end.
\<close>

function exponent_up :: "real \<Rightarrow> int \<Rightarrow> int" where
  "exponent_up x e = (if e < 1024 \<and> pow2 (e + 1) \<le> x then exponent_up x (e + 1) else e)"
  by pat_completeness auto
termination
  by (relation "measure (\<lambda>(x, e). nat (1024 - e))") auto

function exponent_down :: "real \<Rightarrow> int \<Rightarrow> int" where
  "exponent_down x e = (if - 1022 < e \<and> x < pow2 e then exponent_down x (e - 1) else e)"
  by pat_completeness auto
termination
  by (relation "measure (\<lambda>(x, e). nat (e + 1022))") auto

text \<open>Rounding to the nearest integer, a tie going to the even one.\<close>

definition round_half_even :: "real \<Rightarrow> int" where
  "round_half_even q =
     (let f = \<lfloor>q\<rfloor>; d = q - of_int f
      in if d < 1 / 2 then f else if 1 / 2 < d then f + 1 else if even f then f else f + 1)"

text \<open>
  The double nearest to a real: with the exponent \<open>e\<close> the doubles around \<open>x\<close> are the
  multiples \<open>m * pow2 (e - 52)\<close> with an integer \<open>m\<close> of at most 53 bits. The result
  is an infinity when it reaches \<open>pow2 1024\<close>, which is when the exponent is 1024, or
  is 1023 and \<open>m\<close> has been rounded up to \<open>2 ^ 53 = 9007199254740992\<close>. This is also
  how a numeric literal of the code or of a JSON document is read.
\<close>

definition round_double :: "real \<Rightarrow> number" where
  "round_double x =
     (if x = 0 then Fin 0
      else
        let a = \<bar>x\<bar>;
            e = (if 1 \<le> a then exponent_up a 0 else exponent_down a 0);
            q = pow2 (e - 52);
            m = round_half_even (a / q)
        in if e = 1024 \<or> (e = 1023 \<and> m = 9007199254740992)
           then (if 0 < x then PosInf else NegInf)
           else if 0 < x then Fin (of_int m * q) else Fin (- (of_int m * q)))"






section \<open>The functions of \<^verbatim>\<open>src/util.ts\<close> with rounding\<close>



















section \<open>Facts about the arithmetic and the string functions\<close>

lemma num_add_zero_right: "num_add x (Fin 0) = x"
  by (cases x) simp_all

lemma num_add_zero_left: "num_add (Fin 0) x = x"
  by (cases x) simp_all

lemma num_add_NaN_right: "num_add x NaN = NaN"
  by (cases x) simp_all

lemma num_sub_zero_right: "num_sub x (Fin 0) = x"
  by (cases x) (simp_all add: num_sub_def)

lemma num_mul_zero_right: "num_mul (Fin k) (Fin 0) = Fin 0"
  by simp

lemma num_div_zero_left: "k \<noteq> 0 \<Longrightarrow> num_div (Fin 0) (Fin k) = Fin 0"
  by simp

lemma str_lt_iff_less: "str_lt a b \<longleftrightarrow> a < b"
  by (induction a b rule: str_lt.induct) (auto simp: codeUnit_def less_char_def)

lemma str_le_iff_less_eq: "str_le a b \<longleftrightarrow> a \<le> b"
  by (simp add: str_le_def str_lt_iff_less not_less)

lemma startsWith_iff: "startsWith s p \<longleftrightarrow> (\<exists>suf. s = p @ suf)"
proof
  assume "startsWith s p"
  then have "s = p @ drop (length p) s"
    unfolding startsWith_def by (metis append_take_drop_id)
  then show "\<exists>suf. s = p @ suf" ..
next
  assume "\<exists>suf. s = p @ suf"
  then show "startsWith s p" by (auto simp: startsWith_def)
qed

lemma str_includes_iff: "str_includes s t \<longleftrightarrow> (\<exists>pre suf. s = pre @ t @ suf)"
proof (induction s)
  case Nil
  then show ?case by auto
next
  case (Cons c cs)
  show ?case
  proof
    assume "str_includes (c # cs) t"
    then consider "startsWith (c # cs) t" | "str_includes cs t" by auto
    then show "\<exists>pre suf. c # cs = pre @ t @ suf"
    proof cases
      case 1
      then obtain suf where "c # cs = t @ suf" by (auto simp: startsWith_iff)
      then have "c # cs = [] @ t @ suf" by simp
      then show ?thesis by blast
    next
      case 2
      then obtain pre suf where "cs = pre @ t @ suf" using Cons.IH by auto
      then have "c # cs = (c # pre) @ t @ suf" by simp
      then show ?thesis by blast
    qed
  next
    assume "\<exists>pre suf. c # cs = pre @ t @ suf"
    then obtain pre suf where e: "c # cs = pre @ t @ suf" by blast
    show "str_includes (c # cs) t"
    proof (cases "pre = []")
      case True
      with e have "startsWith (c # cs) t" by (auto simp: startsWith_iff)
      then show ?thesis by simp
    next
      case False
      then obtain d ds where "pre = d # ds" by (cases pre) auto
      with e have "cs = ds @ t @ suf" by simp
      then have "str_includes cs t" using Cons.IH by blast
      then show ?thesis by simp
    qed
  qed
qed

lemma codeUnit_toLowerChar_not_upper:
  "\<not> (65 \<le> codeUnit (toLowerChar c) \<and> codeUnit (toLowerChar c) \<le> 90)"
proof -
  let ?n = "of_char c :: nat"
  show ?thesis
  proof (cases "(65 \<le> ?n \<and> ?n \<le> 90) \<or> (192 \<le> ?n \<and> ?n \<le> 222 \<and> ?n \<noteq> 215)")
    case True
    then have "toLowerChar c = char_of (?n + 32)"
      by (simp add: toLowerChar_def codeUnit_def Let_def)
    moreover from True have "(?n + 32) mod 256 = ?n + 32" by auto
    ultimately have "codeUnit (toLowerChar c) = ?n + 32"
      by (simp add: codeUnit_def)
    with True show ?thesis by auto
  next
    case False
    then have "toLowerChar c = c"
      by (auto simp add: toLowerChar_def codeUnit_def Let_def)
    with False show ?thesis by (auto simp: codeUnit_def)
  qed
qed

lemma upper_letter_codeUnit:
  "c \<in> set ''ABCDEFGHIJKLMNOPQRSTUVWXYZ'' \<Longrightarrow> 65 \<le> codeUnit c \<and> codeUnit c \<le> 90"
  by (auto simp: codeUnit_def)

lemma toLowerCase_no_upper:
  assumes "c \<in> set (toLowerCase s)"
  shows "c \<notin> set ''ABCDEFGHIJKLMNOPQRSTUVWXYZ''"
proof
  assume u: "c \<in> set ''ABCDEFGHIJKLMNOPQRSTUVWXYZ''"
  from assms obtain d where "c = toLowerChar d"
    unfolding toLowerCase_def by auto
  with upper_letter_codeUnit [OF u] codeUnit_toLowerChar_not_upper [of d]
  show False by simp
qed

text \<open>In radix 10, \<^verbatim>\<open>parseInt\<close> fails exactly on the strings without a leading numeral.\<close>

lemma digitValue_decimal: "digitValue c < 10 \<longleftrightarrow> 48 \<le> codeUnit c \<and> codeUnit c \<le> 57"
  by (auto simp: digitValue_def Let_def)

lemma parseInt_10_NaN_iff: "parseInt s 10 = NaN \<longleftrightarrow> \<not> leadingNumeral s"
proof -
  define t where "t = dropWhile isStrWhiteSpaceChar s"
  define u where "u = (if startsWith t ''+'' \<or> startsWith t ''-'' then drop 1 t else t)"
  have l: "leadingNumeral s \<longleftrightarrow>
      (case u of [] \<Rightarrow> False | c # cs \<Rightarrow> 48 \<le> codeUnit c \<and> codeUnit c \<le> 57)"
    unfolding leadingNumeral_def t_def u_def Let_def ..
  have p: "parseInt s 10 = NaN \<longleftrightarrow> takeWhile (\<lambda>c. digitValue c < 10) u = []"
    by (simp add: parseInt_def t_def u_def Let_def)
  show ?thesis
    unfolding l p by (cases u) (simp_all add: digitValue_decimal)
qed

section \<open>One person, one preference\<close>

text \<open>
  For a person with a single preference, the turn of the loop is the statement of that
  preference; the other eight do nothing.
\<close>

lemma scorePerson_noPreferences: "scorePerson movie sc (voter noPreferences) = sc"
  by (simp add: scorePerson_def voter_def noPreferences_def checkAfterYear_def
      checkBeforeYear_def checkMaximumAgeRating_def checkShorterThan_def
      checkFavoriteGenre_def checkLeastFavoriteDirector_def checkFavoriteActors_def
      checkFavoritePlotElements_def checkMinimumRottenTomatoesScore_def)

lemma scorePerson_only_maximumAgeRating:
  "scorePerson movie sc (voter (noPreferences\<lparr>maximumAgeRating := Some p\<rparr>)) =
   checkMaximumAgeRating movie (Some p) sc"
  by (simp add: scorePerson_def voter_def noPreferences_def checkAfterYear_def
      checkBeforeYear_def checkShorterThan_def
      checkFavoriteGenre_def checkLeastFavoriteDirector_def checkFavoriteActors_def
      checkFavoritePlotElements_def checkMinimumRottenTomatoesScore_def)

lemma scorePerson_only_favoriteGenre:
  "scorePerson movie sc (voter (noPreferences\<lparr>favoriteGenre := Some p\<rparr>)) =
   checkFavoriteGenre movie (Some p) sc"
  by (simp add: scorePerson_def voter_def noPreferences_def checkAfterYear_def
      checkBeforeYear_def checkMaximumAgeRating_def checkShorterThan_def
      checkLeastFavoriteDirector_def checkFavoriteActors_def
      checkFavoritePlotElements_def checkMinimumRottenTomatoesScore_def)

lemma scorePerson_only_minimumRottenTomatoesScore:
  "scorePerson movie sc (voter (noPreferences\<lparr>minimumRottenTomatoesScore := Some p\<rparr>)) =
   checkMinimumRottenTomatoesScore movie (Some p) sc"
  by (simp add: scorePerson_def voter_def noPreferences_def checkAfterYear_def
      checkBeforeYear_def checkMaximumAgeRating_def checkShorterThan_def
      checkFavoriteGenre_def checkLeastFavoriteDirector_def checkFavoriteActors_def
      checkFavoritePlotElements_def)

lemma calculateScore_single: "calculateScore movie [person] = scorePerson movie (Fin 0) person"
  by (simp add: calculateScore_def)

section \<open>The favourite actors and the division by the number of matches\<close>

text \<open>
  Claim C1 says that a \<^verbatim>\<open>favoriteActors\<close> preference of weight \<open>w\<close> adds 0 to the
  score when none of the movie's actors is a favourite one, and that the division of
  \<open>w\<close> by the number of matches never divides by zero. The code divides without looking
  at the number: for the example movie and a person whose only favourite actor, with weight
  5, is not in the cast, the list of matches is empty, the statement adds
  \<^verbatim>\<open>5 / 0\<close>, which is \<^verbatim>\<open>Infinity\<close>, and that is the score.
\<close>

theorem favoriteActors_no_match_divides_by_zero:
  "matchingActors shawshank [''Al Pacino''] = [] \<and>
   checkFavoriteActors shawshank (Some \<lparr>val = [''Al Pacino''], weight = Fin 5\<rparr>) (Fin 0)
     = PosInf \<and>
   calculateScore shawshank [pacinoFan (Fin 5)] = PosInf"
  by code_simp

text \<open>
  Whatever the weight, an empty list of matches makes the statement add the weight divided
  by zero, which is never 0: an infinity for a weight that is not zero, \<^verbatim>\<open>NaN\<close> for
  the weight zero.
\<close>

lemma checkFavoriteActors_no_match:
  assumes "matchingActors movie (val p) = []"
  shows "checkFavoriteActors movie (Some p) sc = num_add sc (num_div (weight p) (Fin 0))"
  using assms by (simp add: checkFavoriteActors_def)

lemma num_div_by_zero_not_zero: "num_div w (Fin 0) \<noteq> Fin 0"
  by (cases w) simp_all

section \<open>Runtimes\<close>

text \<open>
  Claim C2 gives three values of \<^verbatim>\<open>runtimeToMinutes\<close>: 142 for \<^verbatim>\<open>2h 22min\<close>, 180
  for \<^verbatim>\<open>3h\<close> and 45 for \<^verbatim>\<open>45min\<close>, a string without the hour marker. The code
  gives the first two. On \<^verbatim>\<open>45min\<close> the split has one piece, which is taken as the
  hours, there are no minutes, and the sum with \<^verbatim>\<open>undefined\<close> is \<^verbatim>\<open>NaN\<close>.
\<close>

theorem runtimeToMinutes_examples:
  "runtimeToMinutes ''2h 22min'' = Fin 142 \<and>
   runtimeToMinutes ''3h'' = Fin 180 \<and>
   runtimeToMinutes ''45min'' = NaN"
  by code_simp

text \<open>The same happens on every string without an \<^verbatim>\<open>h\<close>.\<close>

lemma splitFrom_no_separator:
  "c \<notin> set s \<Longrightarrow> splitFrom [c] piece s = [rev piece @ s]"
  by (induction s arbitrary: piece) (auto simp: startsWith_def)

lemma runtimeToMinutes_no_hour_marker:
  "CHR ''h'' \<notin> set s \<Longrightarrow> runtimeToMinutes s = NaN"
  by (simp add: runtimeToMinutes_def str_split_def splitFrom_no_separator num_add_NaN_right)

section \<open>The example of the specification\<close>

text \<open>
  Claim C5: the movie of the example (whatever its identifier and title) and one person
  with the preferences \<^verbatim>\<open>afterYear\<close> (1990, weight 5) and
  \<^verbatim>\<open>minimumRottenTomatoesScore\<close> (90, weight 3) have the score 8.
\<close>

theorem calculateScore_example:
  "calculateScore
     \<lparr>imdbID = i, title = t, year = ''1994'', genre = ''Drama'',
      director = ''Frank Darabont'', actors = ''Tim Robbins, Morgan Freeman'',
      plot = ''a banker is sentenced to life in prison'', rated = ''R'',
      runtime = ''2h 22min'',
      ratings = [\<lparr>source = ''Rotten Tomatoes'', ratingValue = ''91%''\<rparr>]\<rparr>
     [\<lparr>name = n,
       preferences = noPreferences
         \<lparr>afterYear := Some \<lparr>val = Fin 1990, weight = Fin 5\<rparr>,
          minimumRottenTomatoesScore := Some \<lparr>val = Fin 90, weight = Fin 3\<rparr>\<rparr>\<rparr>]
   = Fin 8"
  by code_simp

section \<open>The age rating\<close>

text \<open>
  Claim C8: a \<^verbatim>\<open>maximumAgeRating\<close> preference with target \<open>t\<close> and weight \<open>w\<close>
  adds \<open>w\<close> exactly when the movie's \<^verbatim>\<open>rated\<close> string is at most \<open>t\<close> in the
  lexicographic order of strings (the order of \<^theory_text>\<open>List_Lexorder\<close> over the code
  units), and adds nothing otherwise; no scale of ratings is looked at. This is said of the
  statement, for any score so far, and of the score of a person with this preference
  only.
\<close>

theorem maximumAgeRating_lexicographic:
  "checkMaximumAgeRating movie (Some \<lparr>val = t, weight = w\<rparr>) sc =
     (if rated movie \<le> t then num_add sc w else sc) \<and>
   calculateScore movie
       [voter (noPreferences\<lparr>maximumAgeRating := Some \<lparr>val = t, weight = w\<rparr>\<rparr>)] =
     (if rated movie \<le> t then w else Fin 0)"
  by (simp add: calculateScore_single scorePerson_only_maximumAgeRating
      checkMaximumAgeRating_def str_le_iff_less_eq num_add_zero_left)

text \<open>
  At a concrete input: \<^verbatim>\<open>NC-17\<close> is before \<^verbatim>\<open>PG\<close> as a string, so a movie rated
  \<^verbatim>\<open>NC-17\<close> satisfies the preference for at most \<^verbatim>\<open>PG\<close>; \<^verbatim>\<open>R\<close> is after
  \<^verbatim>\<open>PG-13\<close>.
\<close>

theorem maximumAgeRating_lexicographic_witness:
  "checkMaximumAgeRating (shawshank\<lparr>rated := ''NC-17''\<rparr>)
     (Some \<lparr>val = ''PG'', weight = Fin 2\<rparr>) (Fin 1) = Fin 3 \<and>
   calculateScore shawshank
     [voter (noPreferences\<lparr>maximumAgeRating := Some \<lparr>val = ''PG-13'', weight = Fin 2\<rparr>\<rparr>)]
     = Fin 0"
proof -
  have le: "(''NC-17'' :: string) \<le> ''PG''"
    by code_simp
  have nle: "\<not> (''R'' :: string) \<le> ''PG-13''"
    by code_simp
  have r: "rated shawshank = ''R''"
    by (simp add: shawshank_def)
  from maximumAgeRating_lexicographic [of "shawshank\<lparr>rated := ''NC-17''\<rparr>" "''PG''" "Fin 2" "Fin 1"]
    le
  have a: "checkMaximumAgeRating (shawshank\<lparr>rated := ''NC-17''\<rparr>)
     (Some \<lparr>val = ''PG'', weight = Fin 2\<rparr>) (Fin 1) = Fin 3"
    by simp
  from maximumAgeRating_lexicographic [of shawshank "''PG-13''" "Fin 2" "Fin 0"] nle r
  have b: "calculateScore shawshank
     [voter (noPreferences\<lparr>maximumAgeRating := Some \<lparr>val = ''PG-13'', weight = Fin 2\<rparr>\<rparr>)]
     = Fin 0"
    by simp
  from a b show ?thesis ..
qed

section \<open>The favourite genre\<close>

text \<open>
  Claim C9: the \<^verbatim>\<open>favoriteGenre\<close> statement lowers the case of the movie's genre and
  not of the target: the preference is satisfied exactly when the lowered genre contains
  the target as it is given. So a target with a capital ASCII letter is never satisfied:
  the statement leaves the score as it is, and a person with this preference only has the
  score 0.
\<close>

theorem favoriteGenre_folds_genre_only:
  "checkFavoriteGenre movie (Some \<lparr>val = t, weight = w\<rparr>) sc =
     (if (\<exists>pre suf. toLowerCase (genre movie) = pre @ t @ suf)
      then num_add sc w else sc) \<and>
   ((\<exists>c \<in> set t. c \<in> set ''ABCDEFGHIJKLMNOPQRSTUVWXYZ'') \<longrightarrow>
      checkFavoriteGenre movie (Some \<lparr>val = t, weight = w\<rparr>) sc = sc \<and>
      calculateScore movie
        [voter (noPreferences\<lparr>favoriteGenre := Some \<lparr>val = t, weight = w\<rparr>\<rparr>)] = Fin 0)"
proof -
  have sat: "str_includes (toLowerCase (genre movie)) t \<longleftrightarrow>
      (\<exists>pre suf. toLowerCase (genre movie) = pre @ t @ suf)"
    by (rule str_includes_iff)
  have never: "\<not> str_includes (toLowerCase (genre movie)) t"
    if "\<exists>c \<in> set t. c \<in> set ''ABCDEFGHIJKLMNOPQRSTUVWXYZ''"
  proof
    assume "str_includes (toLowerCase (genre movie)) t"
    then obtain pre suf where "toLowerCase (genre movie) = pre @ t @ suf"
      using sat by blast
    then have "set t \<subseteq> set (toLowerCase (genre movie))" by auto
    with that toLowerCase_no_upper show False by blast
  qed
  show ?thesis
    using sat never
    by (simp add: calculateScore_single scorePerson_only_favoriteGenre
        checkFavoriteGenre_def)
qed

text \<open>
  At a concrete input: the genre \<^verbatim>\<open>Drama\<close> of the example movie does not satisfy the
  target \<^verbatim>\<open>Drama\<close>, which has a capital letter.
\<close>

theorem favoriteGenre_folds_genre_only_witness:
  "(\<exists>c \<in> set ''Drama''. c \<in> set ''ABCDEFGHIJKLMNOPQRSTUVWXYZ'') \<and>
   checkFavoriteGenre shawshank (Some \<lparr>val = ''Drama'', weight = Fin 4\<rparr>) (Fin 1) = Fin 1 \<and>
   calculateScore shawshank
     [voter (noPreferences\<lparr>favoriteGenre := Some \<lparr>val = ''Drama'', weight = Fin 4\<rparr>\<rparr>)]
     = Fin 0"
proof -
  have u: "\<exists>c \<in> set ''Drama''. c \<in> set ''ABCDEFGHIJKLMNOPQRSTUVWXYZ''"
    by simp
  from favoriteGenre_folds_genre_only [of shawshank "''Drama''" "Fin 4" "Fin 1", THEN conjunct2] u
  have "checkFavoriteGenre shawshank (Some \<lparr>val = ''Drama'', weight = Fin 4\<rparr>) (Fin 1) = Fin 1 \<and>
    calculateScore shawshank
      [voter (noPreferences\<lparr>favoriteGenre := Some \<lparr>val = ''Drama'', weight = Fin 4\<rparr>\<rparr>)]
      = Fin 0"
    by blast
  with u show ?thesis by blast
qed
section \<open>The Rotten Tomatoes score\<close>

lemma num_ge_NaN_left: "\<not> num_ge NaN t"
  by (simp add: num_ge_def)

text \<open>
  Claim C4: when no rating of the movie has the source \<^verbatim>\<open>Rotten Tomatoes\<close>,
  \<^verbatim>\<open>getRottenTomatoesScore\<close> returns 0, and a \<^verbatim>\<open>minimumRottenTomatoesScore\<close>
  preference with target \<open>t\<close> and weight \<open>w\<close> is not skipped: it is compared with 0, so
  it adds \<open>w\<close> exactly when \<open>t\<close> is at most 0, and nothing otherwise. The last part says
  the same of the score of a person with this preference only.
\<close>

theorem missing_rotten_tomatoes_counts_as_zero:
  assumes "\<forall>r \<in> set (ratings movie). source r \<noteq> ''Rotten Tomatoes''"
  shows "getRottenTomatoesScore movie = Fin 0 \<and>
         checkMinimumRottenTomatoesScore movie (Some \<lparr>val = t, weight = w\<rparr>) sc =
           (if num_le t (Fin 0) then num_add sc w else sc) \<and>
         calculateScore movie
             [voter (noPreferences
                \<lparr>minimumRottenTomatoesScore := Some \<lparr>val = t, weight = w\<rparr>\<rparr>)] =
           (if num_le t (Fin 0) then w else Fin 0)"
proof -
  from assms have "find (\<lambda>r. source r = ''Rotten Tomatoes'') (ratings movie) = None"
    by (simp add: find_None_iff)
  then have z: "getRottenTomatoesScore movie = Fin 0"
    by (simp add: getRottenTomatoesScore_def)
  then show ?thesis
    by (simp add: calculateScore_single scorePerson_only_minimumRottenTomatoesScore
        checkMinimumRottenTomatoesScore_def num_le_def num_add_zero_left)
qed

text \<open>
  At a concrete input: a movie whose only rating comes from another source, and the targets
  0 (satisfied) and 60 (not satisfied).
\<close>

theorem missing_rotten_tomatoes_counts_as_zero_witness:
  "list_all (\<lambda>r. source r \<noteq> ''Rotten Tomatoes'')
     (ratings (shawshank\<lparr>ratings :=
        [\<lparr>source = ''Internet Movie Database'', ratingValue = ''9.3/10''\<rparr>]\<rparr>)) \<and>
   getRottenTomatoesScore (shawshank\<lparr>ratings :=
        [\<lparr>source = ''Internet Movie Database'', ratingValue = ''9.3/10''\<rparr>]\<rparr>) = Fin 0 \<and>
   checkMinimumRottenTomatoesScore (shawshank\<lparr>ratings :=
        [\<lparr>source = ''Internet Movie Database'', ratingValue = ''9.3/10''\<rparr>]\<rparr>)
      (Some \<lparr>val = Fin 0, weight = Fin 3\<rparr>) (Fin 1) = Fin 4 \<and>
   calculateScore (shawshank\<lparr>ratings :=
        [\<lparr>source = ''Internet Movie Database'', ratingValue = ''9.3/10''\<rparr>]\<rparr>)
      [voter (noPreferences
         \<lparr>minimumRottenTomatoesScore := Some \<lparr>val = Fin 60, weight = Fin 3\<rparr>\<rparr>)] = Fin 0"
proof -
  let ?m = "shawshank\<lparr>ratings :=
        [\<lparr>source = ''Internet Movie Database'', ratingValue = ''9.3/10''\<rparr>]\<rparr>"
  have h: "\<forall>r \<in> set (ratings ?m). source r \<noteq> ''Rotten Tomatoes''"
    by simp
  have a: "getRottenTomatoesScore ?m = Fin 0"
    using missing_rotten_tomatoes_counts_as_zero [OF h] by blast
  have b: "checkMinimumRottenTomatoesScore ?m (Some \<lparr>val = Fin 0, weight = Fin 3\<rparr>) (Fin 1)
      = Fin 4"
    using missing_rotten_tomatoes_counts_as_zero [OF h, of "Fin 0" "Fin 3" "Fin 1"]
    by (simp add: num_le_def num_ge_def)
  have c: "calculateScore ?m
      [voter (noPreferences
         \<lparr>minimumRottenTomatoesScore := Some \<lparr>val = Fin 60, weight = Fin 3\<rparr>\<rparr>)] = Fin 0"
    using missing_rotten_tomatoes_counts_as_zero [OF h, of "Fin 60" "Fin 3" "Fin 0"]
    by (simp add: num_le_def num_ge_def)
  from h have "list_all (\<lambda>r. source r \<noteq> ''Rotten Tomatoes'') (ratings ?m)"
    by (simp add: list_all_iff)
  with a b c show ?thesis by blast
qed

text \<open>
  Claim C10 says: when the movie has a \<^verbatim>\<open>Rotten Tomatoes\<close> rating whose value has no
  leading numeral, the score fails to parse and a \<^verbatim>\<open>minimumRottenTomatoesScore\<close>
  preference is satisfied for no target. The code removes the first percent sign of the
  value before it parses, wherever that sign is: the value \<^verbatim>\<open>%5\<close> has no leading
  numeral, and its score is 5, which satisfies the target 5.
\<close>

theorem percent_before_numeral_counterexample:
  "ratings (shawshank\<lparr>ratings := [\<lparr>source = ''Rotten Tomatoes'', ratingValue = ''%5''\<rparr>]\<rparr>)
     = [\<lparr>source = ''Rotten Tomatoes'', ratingValue = ''%5''\<rparr>] \<and>
   \<not> leadingNumeral ''%5'' \<and>
   getRottenTomatoesScore
     (shawshank\<lparr>ratings := [\<lparr>source = ''Rotten Tomatoes'', ratingValue = ''%5''\<rparr>]\<rparr>)
     = Fin 5 \<and>
   checkMinimumRottenTomatoesScore
     (shawshank\<lparr>ratings := [\<lparr>source = ''Rotten Tomatoes'', ratingValue = ''%5''\<rparr>]\<rparr>)
     (Some \<lparr>val = Fin 5, weight = Fin 3\<rparr>) (Fin 0)
     = Fin 3"
  by code_simp

text \<open>
  Claim C10 as amended: when the first rating with the source \<^verbatim>\<open>Rotten Tomatoes\<close>
  has a value that, once its first percent sign is removed, has no leading numeral (as the
  value \<^verbatim>\<open>N/A\<close>), the extracted score is \<^verbatim>\<open>NaN\<close>, the statement of a
  \<^verbatim>\<open>minimumRottenTomatoesScore\<close> preference leaves the score as it is for every
  target and weight, and a person with this preference only has the score 0. All functions
  of the model are total: nothing is raised.
\<close>

theorem unparsable_rating_never_meets_minimum:
  assumes "find (\<lambda>r. source r = ''Rotten Tomatoes'') (ratings movie) = Some r"
      and "\<not> leadingNumeral (str_replace (ratingValue r) ''%'' [])"
  shows "getRottenTomatoesScore movie = NaN \<and>
         checkMinimumRottenTomatoesScore movie (Some \<lparr>val = t, weight = w\<rparr>) sc = sc \<and>
         calculateScore movie
             [voter (noPreferences
                \<lparr>minimumRottenTomatoesScore := Some \<lparr>val = t, weight = w\<rparr>\<rparr>)] = Fin 0"
proof -
  from assms have n: "getRottenTomatoesScore movie = NaN"
    by (simp add: getRottenTomatoesScore_def parseInt_10_NaN_iff)
  then show ?thesis
    by (simp add: calculateScore_single scorePerson_only_minimumRottenTomatoesScore
        checkMinimumRottenTomatoesScore_def num_ge_NaN_left)
qed

text \<open>At a concrete input: the rating \<^verbatim>\<open>N/A\<close> and a preference with target 0.\<close>

theorem unparsable_rating_never_meets_minimum_witness:
  "find (\<lambda>r. source r = ''Rotten Tomatoes'')
     (ratings (shawshank\<lparr>ratings := [\<lparr>source = ''Rotten Tomatoes'', ratingValue = ''N/A''\<rparr>]\<rparr>))
     = Some \<lparr>source = ''Rotten Tomatoes'', ratingValue = ''N/A''\<rparr> \<and>
   \<not> leadingNumeral (str_replace ''N/A'' ''%'' []) \<and>
   getRottenTomatoesScore
     (shawshank\<lparr>ratings := [\<lparr>source = ''Rotten Tomatoes'', ratingValue = ''N/A''\<rparr>]\<rparr>)
     = NaN \<and>
   checkMinimumRottenTomatoesScore
     (shawshank\<lparr>ratings := [\<lparr>source = ''Rotten Tomatoes'', ratingValue = ''N/A''\<rparr>]\<rparr>)
     (Some \<lparr>val = Fin 0, weight = Fin 3\<rparr>) (Fin 1)
     = Fin 1"
proof -
  let ?r = "\<lparr>source = ''Rotten Tomatoes'', ratingValue = ''N/A''\<rparr>"
  let ?m = "shawshank\<lparr>ratings := [?r]\<rparr>"
  have f: "find (\<lambda>r. source r = ''Rotten Tomatoes'') (ratings ?m) = Some ?r"
    by simp
  have l: "\<not> leadingNumeral (str_replace ''N/A'' ''%'' [])"
    by code_simp
  then have l': "\<not> leadingNumeral (str_replace (ratingValue ?r) ''%'' [])"
    by simp
  from unparsable_rating_never_meets_minimum [OF f l', of "Fin 0" "Fin 3" "Fin 1"] f l
  show ?thesis by blast
qed

section \<open>A preference of weight zero\<close>

text \<open>
  Eight of the nine statements add the weight, its negation or a multiple of it; with the
  weight zero they leave the score as it is, whatever the target.
\<close>

lemma check_weight_zero:
  "checkAfterYear movie (Some \<lparr>val = n, weight = Fin 0\<rparr>) sc = sc"
  "checkBeforeYear movie (Some \<lparr>val = n, weight = Fin 0\<rparr>) sc = sc"
  "checkMaximumAgeRating movie (Some \<lparr>val = t, weight = Fin 0\<rparr>) sc = sc"
  "checkShorterThan movie (Some \<lparr>val = t, weight = Fin 0\<rparr>) sc = sc"
  "checkFavoriteGenre movie (Some \<lparr>val = t, weight = Fin 0\<rparr>) sc = sc"
  "checkLeastFavoriteDirector movie (Some \<lparr>val = t, weight = Fin 0\<rparr>) sc = sc"
  "checkFavoritePlotElements movie (Some \<lparr>val = ts, weight = Fin 0\<rparr>) sc = sc"
  "checkMinimumRottenTomatoesScore movie (Some \<lparr>val = n, weight = Fin 0\<rparr>) sc = sc"
  by (simp_all add: checkAfterYear_def checkBeforeYear_def checkMaximumAgeRating_def
      checkShorterThan_def checkFavoriteGenre_def checkLeastFavoriteDirector_def
      checkFavoritePlotElements_def checkMinimumRottenTomatoesScore_def
      num_add_zero_right num_sub_zero_right)

text \<open>A preference that the person does not have leaves the score as it is, too.\<close>

lemma check_absent:
  "checkAfterYear movie None sc = sc"
  "checkBeforeYear movie None sc = sc"
  "checkMaximumAgeRating movie None sc = sc"
  "checkShorterThan movie None sc = sc"
  "checkFavoriteGenre movie None sc = sc"
  "checkLeastFavoriteDirector movie None sc = sc"
  "checkFavoriteActors movie None sc = sc"
  "checkFavoritePlotElements movie None sc = sc"
  "checkMinimumRottenTomatoesScore movie None sc = sc"
  by (simp_all add: checkAfterYear_def checkBeforeYear_def checkMaximumAgeRating_def
      checkShorterThan_def checkFavoriteGenre_def checkLeastFavoriteDirector_def
      checkFavoriteActors_def checkFavoritePlotElements_def
      checkMinimumRottenTomatoesScore_def)

text \<open>
  The statement of the favourite actors divides the weight by the number of matches: with
  the weight zero it leaves the score as it is when an actor matches, and makes it
  \<^verbatim>\<open>NaN\<close> when none does.
\<close>

lemma checkFavoriteActors_weight_zero:
  "checkFavoriteActors movie (Some \<lparr>val = ts, weight = Fin 0\<rparr>) sc =
     (if matchingActors movie ts = [] then NaN else sc)"
  by (simp add: checkFavoriteActors_def num_add_zero_right num_add_NaN_right)

text \<open>
  So for a person who has no preference of one of the eight kinds, adding it with the
  weight zero changes nothing in the person's turn of the loop, for every score so far;
  and the same holds for favourite actors of whom one is in the cast.
\<close>

lemma scorePerson_weight_zero:
  "afterYear (preferences q) = None \<Longrightarrow>
     scorePerson movie sc
       (q\<lparr>preferences := (preferences q)\<lparr>afterYear := Some \<lparr>val = n, weight = Fin 0\<rparr>\<rparr>\<rparr>)
     = scorePerson movie sc q"
  "beforeYear (preferences q) = None \<Longrightarrow>
     scorePerson movie sc
       (q\<lparr>preferences := (preferences q)\<lparr>beforeYear := Some \<lparr>val = n, weight = Fin 0\<rparr>\<rparr>\<rparr>)
     = scorePerson movie sc q"
  "maximumAgeRating (preferences q) = None \<Longrightarrow>
     scorePerson movie sc
       (q\<lparr>preferences :=
          (preferences q)\<lparr>maximumAgeRating := Some \<lparr>val = t, weight = Fin 0\<rparr>\<rparr>\<rparr>)
     = scorePerson movie sc q"
  "shorterThan (preferences q) = None \<Longrightarrow>
     scorePerson movie sc
       (q\<lparr>preferences := (preferences q)\<lparr>shorterThan := Some \<lparr>val = t, weight = Fin 0\<rparr>\<rparr>\<rparr>)
     = scorePerson movie sc q"
  "favoriteGenre (preferences q) = None \<Longrightarrow>
     scorePerson movie sc
       (q\<lparr>preferences := (preferences q)\<lparr>favoriteGenre := Some \<lparr>val = t, weight = Fin 0\<rparr>\<rparr>\<rparr>)
     = scorePerson movie sc q"
  "leastFavoriteDirector (preferences q) = None \<Longrightarrow>
     scorePerson movie sc
       (q\<lparr>preferences :=
          (preferences q)\<lparr>leastFavoriteDirector := Some \<lparr>val = t, weight = Fin 0\<rparr>\<rparr>\<rparr>)
     = scorePerson movie sc q"
  "favoritePlotElements (preferences q) = None \<Longrightarrow>
     scorePerson movie sc
       (q\<lparr>preferences :=
          (preferences q)\<lparr>favoritePlotElements := Some \<lparr>val = ts, weight = Fin 0\<rparr>\<rparr>\<rparr>)
     = scorePerson movie sc q"
  "minimumRottenTomatoesScore (preferences q) = None \<Longrightarrow>
     scorePerson movie sc
       (q\<lparr>preferences :=
          (preferences q)\<lparr>minimumRottenTomatoesScore := Some \<lparr>val = n, weight = Fin 0\<rparr>\<rparr>\<rparr>)
     = scorePerson movie sc q"
  by (simp_all add: scorePerson_def Let_def check_weight_zero check_absent)

lemma scorePerson_weight_zero_favoriteActors:
  "favoriteActors (preferences q) = None \<Longrightarrow> matchingActors movie ts \<noteq> [] \<Longrightarrow>
     scorePerson movie sc
       (q\<lparr>preferences := (preferences q)\<lparr>favoriteActors := Some \<lparr>val = ts, weight = Fin 0\<rparr>\<rparr>\<rparr>)
     = scorePerson movie sc q"
  by (simp add: scorePerson_def Let_def checkFavoriteActors_weight_zero check_absent)

text \<open>
  A person whose turn of the loop is the same as another person's can take that person's
  place anywhere in the list of people.
\<close>

lemma calculateScore_replace_person:
  assumes "\<And>sc. scorePerson movie sc q' = scorePerson movie sc q"
  shows "calculateScore movie (ps @ q' # qs) = calculateScore movie (ps @ q # qs)"
  by (simp add: calculateScore_def assms)

text \<open>
  Claim C3 says that adding a preference of a kind the person has not, with weight 0 and
  any target, leaves \<^verbatim>\<open>calculateScore\<close> as it is. For the favourite actors it does
  not: the person without preferences gives the example movie the score 0; with the added
  preference for an actor who is not in the cast, of weight 0, the code adds
  \<^verbatim>\<open>0 / 0\<close> and the score is \<^verbatim>\<open>NaN\<close>. It is the division of claim C1.
\<close>

theorem weight_zero_favoriteActors_gives_NaN:
  "favoriteActors (preferences (voter noPreferences)) = None \<and>
   pacinoFan (Fin 0) =
     (voter noPreferences)\<lparr>preferences := (preferences (voter noPreferences))
        \<lparr>favoriteActors := Some \<lparr>val = [''Al Pacino''], weight = Fin 0\<rparr>\<rparr>\<rparr> \<and>
   calculateScore shawshank [voter noPreferences] = Fin 0 \<and>
   calculateScore shawshank [pacinoFan (Fin 0)] = NaN"
proof -
  have "favoriteActors (preferences (voter noPreferences)) = None"
    by (simp add: voter_def noPreferences_def)
  moreover have "pacinoFan (Fin 0) =
     (voter noPreferences)\<lparr>preferences := (preferences (voter noPreferences))
        \<lparr>favoriteActors := Some \<lparr>val = [''Al Pacino''], weight = Fin 0\<rparr>\<rparr>\<rparr>"
    by (simp add: pacinoFan_def voter_def)
  moreover have "calculateScore shawshank [voter noPreferences] = Fin 0"
    by (simp add: calculateScore_single scorePerson_noPreferences)
  moreover have "calculateScore shawshank [pacinoFan (Fin 0)] = NaN"
    by code_simp
  ultimately show ?thesis by blast
qed
section \<open>Ranking\<close>

text \<open>
  The sort neither drops nor repeats an element: \<^verbatim>\<open>rankMovies\<close> returns one pair for
  each movie of its input, whatever the scores.
\<close>

lemma mset_sort_insert: "mset (sort_insert cmp x ys) = add_mset x (mset ys)"
  by (induction ys) simp_all

lemma mset_array_sort: "mset (array_sort cmp xs) = mset xs"
  by (induction xs) (simp_all add: array_sort_def mset_sort_insert)

lemma set_sort_insert: "set (sort_insert cmp x ys) = insert x (set ys)"
  by (induction ys) auto

lemma rankMovies_mset:
  "mset (rankMovies movies people) =
   mset (map (\<lambda>movie. \<lparr>score = calculateScore movie people, id' = imdbID movie\<rparr>) movies)"
  by (simp add: rankMovies_def mset_array_sort)

lemma rankMovies_length: "length (rankMovies movies people) = length movies"
  using rankMovies_mset [of movies people, THEN arg_cong, of size] by simp

lemma rankMovies_ids: "mset (map id' (rankMovies movies people)) = mset (map imdbID movies)"
proof -
  have "mset (map id' (rankMovies movies people)) = image_mset id' (mset (rankMovies movies people))"
    by simp
  also have "\<dots> = image_mset id'
      (mset (map (\<lambda>movie. \<lparr>score = calculateScore movie people, id' = imdbID movie\<rparr>) movies))"
    by (simp only: rankMovies_mset)
  also have "\<dots> = mset (map imdbID movies)"
    by (simp add: image_mset.compositionality comp_def)
  finally show ?thesis .
qed

text \<open>
  The comparison function of \<^verbatim>\<open>rankMovies\<close> is the difference of the scores. On
  scores that are not \<^verbatim>\<open>NaN\<close> it is positive exactly when the first score is the
  smaller one, and the result of the sort is in descending order.
\<close>

lemma num_sub_positive_iff:
  "a \<noteq> NaN \<Longrightarrow> b \<noteq> NaN \<Longrightarrow> num_lt (Fin 0) (num_sub b a) \<longleftrightarrow> num_lt a b"
  by (cases a; cases b) (simp_all add: num_sub_def)

lemma num_ge_trans: "num_ge a b \<Longrightarrow> num_ge b c \<Longrightarrow> num_ge a c"
  by (cases a; cases b; cases c) (simp_all add: num_ge_def)

lemma num_lt_imp_ge: "num_lt a b \<Longrightarrow> num_ge b a"
  by (cases a; cases b) (simp_all add: num_ge_def)

lemma descending_sort_insert:
  assumes "score x \<noteq> NaN" and "list_all (\<lambda>y. score y \<noteq> NaN) ys" and "descending ys"
  shows "descending (sort_insert (\<lambda>a b. num_sub (score b) (score a)) x ys)"
  using assms
proof (induction ys)
  case Nil
  then show ?case by (simp add: descending_def)
next
  case (Cons y ys)
  from Cons.prems have d: "descending ys" and n: "list_all (\<lambda>y. score y \<noteq> NaN) ys"
    and ny: "score y \<noteq> NaN"
    by (simp_all add: descending_def)
  show ?case
  proof (cases "num_lt (score x) (score y)")
    case True
    have ih: "descending (sort_insert (\<lambda>a b. num_sub (score b) (score a)) x ys)"
      using Cons.IH [OF Cons.prems(1) n d] .
    have "num_ge (score y) (score z)"
      if "z \<in> set (sort_insert (\<lambda>a b. num_sub (score b) (score a)) x ys)" for z
      using that Cons.prems(3) True
      by (auto simp: set_sort_insert descending_def num_lt_imp_ge)
    with ih True Cons.prems(1) ny show ?thesis
      by (simp add: descending_def num_sub_positive_iff)
  next
    case False
    with Cons.prems(1) ny have xy: "num_ge (score x) (score y)"
      by (simp add: num_ge_def)
    have "num_ge (score x) (score z)" if "z \<in> set ys" for z
      using that Cons.prems(3) xy by (auto simp: descending_def intro: num_ge_trans)
    with False xy Cons.prems(1,3) ny show ?thesis
      by (simp add: descending_def num_sub_positive_iff)
  qed
qed

lemma descending_array_sort:
  "list_all (\<lambda>y. score y \<noteq> NaN) xs \<Longrightarrow>
   descending (array_sort (\<lambda>a b. num_sub (score b) (score a)) xs)"
proof (induction xs)
  case Nil
  then show ?case by (simp add: array_sort_def descending_def)
next
  case (Cons x xs)
  let ?rest = "array_sort (\<lambda>a b. num_sub (score b) (score a)) xs"
  from Cons have d: "descending ?rest"
    by simp
  have "set ?rest = set xs"
    using mset_array_sort [of "\<lambda>a b. num_sub (score b) (score a)" xs] by (rule mset_eq_setD)
  with Cons.prems have n: "list_all (\<lambda>y. score y \<noteq> NaN) ?rest"
    by (simp add: list_all_iff)
  from Cons.prems have "score x \<noteq> NaN"
    by simp
  from descending_sort_insert [OF this n d] show ?case
    by (simp add: array_sort_def)
qed

lemma rankMovies_descending:
  assumes "list_all (\<lambda>movie. calculateScore movie people \<noteq> NaN) movies"
  shows "descending (rankMovies movies people)"
  unfolding rankMovies_def
  by (rule descending_array_sort) (use assms in \<open>simp add: list_all_iff\<close>)

text \<open>The example of three movies with the scores 10, -4 and 0.\<close>

lemma rankMovies_three:
  assumes "calculateScore a people = Fin 10" and "calculateScore b people = Fin (- 4)"
      and "calculateScore c people = Fin 0"
  shows "map id' (rankMovies [a, b, c] people) = [imdbID a, imdbID c, imdbID b]"
  using assms by (simp add: rankMovies_def array_sort_def num_sub_def)

text \<open>
  Claim C6 says that \<^verbatim>\<open>rankMovies\<close> returns one pair for each movie and that its
  output is in descending order of score, for every list of movies and every list of
  people. The first part holds, and so does the second as long as no score is
  \<^verbatim>\<open>NaN\<close> (the lemmas above). A score is \<^verbatim>\<open>NaN\<close> when a
  \<^verbatim>\<open>favoriteActors\<close> preference of weight zero matches no actor (the division of claim
  C1); the difference of that score and any other is \<^verbatim>\<open>NaN\<close>, the sort reads it as
  "equal", and nothing is moved: three movies with the scores 1, \<^verbatim>\<open>NaN\<close> and 2 come
  back in this order, the smaller score before the greater.
\<close>

theorem rankMovies_NaN_not_descending:
  "map (\<lambda>movie. calculateScore movie [freemanFan]) [movieOne, movieNaN, movieTwo]
     = [Fin 1, NaN, Fin 2] \<and>
   map score (rankMovies [movieOne, movieNaN, movieTwo] [freemanFan]) = [Fin 1, NaN, Fin 2] \<and>
   map id' (rankMovies [movieOne, movieNaN, movieTwo] [freemanFan])
     = [''tt0000001'', ''tt0000002'', ''tt0000003''] \<and>
   \<not> descending (rankMovies [movieOne, movieNaN, movieTwo] [freemanFan])"
  by code_simp

section \<open>Sums of the persons' scores, in exact arithmetic\<close>








section \<open>Sums of the persons' scores, with the rounding of doubles\<close>

text \<open>The rounding at some reals: an integer, two literals with a fractional part, a tie.\<close>

lemma round_double_examples:
  "round_double 8 = Fin 8"
  "round_double (1 / 10) = Fin (3602879701896397 / 36028797018963968)"
  "round_double (3 / 10) = Fin (5404319552844595 / 18014398509481984)"
  "round_double 9007199254740993 = Fin 9007199254740992"
  by code_simp+












end
